theory Spec2Isabelle
  imports Complex_Main "HOL-Library.Multiset"
begin

section \<open>Floating-point values\<close>

text \<open>
  The program computes on IEEE double values, through pandas/numpy columns and through
  Python floats. A value is a finite number, one of the two infinities, or NaN, which
  pandas also uses for a missing entry. Finite arithmetic is modelled exactly, over the
  reals (no rounding error and no overflow), and zero carries no sign. The special values
  follow IEEE 754: a finite non-zero number divided by zero is an infinity, zero divided by
  zero is NaN, and every comparison with NaN is false.
\<close>

datatype fl = Fin real | PInf | NInf | NaN

fun fneg :: "fl \<Rightarrow> fl" where
  "fneg (Fin a) = Fin (- a)"
| "fneg PInf = NInf"
| "fneg NInf = PInf"
| "fneg NaN = NaN"

fun fadd :: "fl \<Rightarrow> fl \<Rightarrow> fl" where
  "fadd (Fin a) (Fin b) = Fin (a + b)"
| "fadd NaN _ = NaN"
| "fadd _ NaN = NaN"
| "fadd PInf NInf = NaN"
| "fadd NInf PInf = NaN"
| "fadd PInf _ = PInf"
| "fadd _ PInf = PInf"
| "fadd NInf _ = NInf"
| "fadd _ NInf = NInf"

definition fsub :: "fl \<Rightarrow> fl \<Rightarrow> fl" where
  "fsub a b = fadd a (fneg b)"

fun fmul :: "fl \<Rightarrow> fl \<Rightarrow> fl" where
  "fmul (Fin a) (Fin b) = Fin (a * b)"
| "fmul NaN _ = NaN"
| "fmul _ NaN = NaN"
| "fmul PInf (Fin b) = (if b = 0 then NaN else if 0 < b then PInf else NInf)"
| "fmul NInf (Fin b) = (if b = 0 then NaN else if 0 < b then NInf else PInf)"
| "fmul (Fin a) PInf = (if a = 0 then NaN else if 0 < a then PInf else NInf)"
| "fmul (Fin a) NInf = (if a = 0 then NaN else if 0 < a then NInf else PInf)"
| "fmul PInf PInf = PInf"
| "fmul NInf NInf = PInf"
| "fmul PInf NInf = NInf"
| "fmul NInf PInf = NInf"

text \<open>
  Division of numpy values (a column divided by a column): it never raises. A zero
  divisor is taken as positive zero; the only division of the program that can meet one
  is \<open>avg_gain / avg_loss\<close>, whose quotient enters \<open>100 - 100 / (1 + rs)\<close>, and that
  expression is 100 for either infinity.
\<close>

fun fdiv :: "fl \<Rightarrow> fl \<Rightarrow> fl" where
  "fdiv (Fin a) (Fin b) =
     (if b \<noteq> 0 then Fin (a / b) else if a = 0 then NaN else if 0 < a then PInf else NInf)"
| "fdiv NaN _ = NaN"
| "fdiv _ NaN = NaN"
| "fdiv (Fin a) PInf = Fin 0"
| "fdiv (Fin a) NInf = Fin 0"
| "fdiv PInf (Fin b) = (if 0 \<le> b then PInf else NInf)"
| "fdiv NInf (Fin b) = (if 0 \<le> b then NInf else PInf)"
| "fdiv PInf PInf = NaN"
| "fdiv PInf NInf = NaN"
| "fdiv NInf PInf = NaN"
| "fdiv NInf NInf = NaN"

fun fl_lt :: "fl \<Rightarrow> fl \<Rightarrow> bool" where
  "fl_lt (Fin a) (Fin b) = (a < b)"
| "fl_lt NaN _ = False"
| "fl_lt _ NaN = False"
| "fl_lt _ NInf = False"
| "fl_lt PInf _ = False"
| "fl_lt NInf _ = True"
| "fl_lt _ PInf = True"

definition fl_gt :: "fl \<Rightarrow> fl \<Rightarrow> bool" where
  "fl_gt a b = fl_lt b a"

section \<open>Python operations on floats\<close>

datatype py_error = ZeroDivisionError | DownloadError

text \<open>\<open>a / b\<close> on two Python floats raises on a zero divisor.\<close>

definition py_truediv :: "fl \<Rightarrow> fl \<Rightarrow> py_error + fl" where
  "py_truediv a b = (if b = Fin 0 then Inl ZeroDivisionError else Inr (fdiv a b))"

text \<open>
  \<open>round(x, ndigits)\<close> on a float rounds to the nearest multiple of \<open>10 ^ -ndigits\<close>,
  a tie going to the even neighbour; a non-finite \<open>x\<close> is returned as it is. Python
  rounds the double it is given, and that double carries the error of the float
  operations that produced it; here the exact value is rounded. The two agree unless the
  exact value is a tie or lies within that error of one: \<open>3981000 / 200000\<close> is the tie
  19.905 and rounds to 19.9 here, while the nearest double lies above the tie and Python
  gives 19.91. So the last digit of a rounded field is the program's only away from ties.
\<close>

definition round_half_even :: "real \<Rightarrow> int" where
  "round_half_even x =
     (let f = \<lfloor>x\<rfloor>; d = x - of_int f
      in if d < 1 / 2 then f else if 1 / 2 < d then f + 1 else if even f then f else f + 1)"

fun py_round :: "fl \<Rightarrow> nat \<Rightarrow> fl" where
  "py_round (Fin r) nd = Fin (of_int (round_half_even (r * 10 ^ nd)) / 10 ^ nd)"
| "py_round x nd = x"

section \<open>pandas operations on columns\<close>

text \<open>
  A column (a pandas Series) is a list of values. \<open>rolling(window=n).mean()\<close> has
  \<open>min_periods = n\<close>: the entry at position \<open>i\<close> is NaN until \<open>n\<close> observations are
  available, and NaN when the window holds a NaN; otherwise it is the mean of the \<open>n\<close>
  entries ending at \<open>i\<close>.
\<close>

definition fsum :: "fl list \<Rightarrow> fl" where
  "fsum xs = foldl fadd (Fin 0) xs"

definition window :: "nat \<Rightarrow> fl list \<Rightarrow> nat \<Rightarrow> fl list" where
  "window n xs i = take n (drop (Suc i - n) xs)"

definition rolling_mean :: "nat \<Rightarrow> fl list \<Rightarrow> fl list" where
  "rolling_mean n xs =
     map (\<lambda>i. if Suc i < n then NaN else fdiv (fsum (window n xs i)) (Fin (real n)))
       [0..<length xs]"

text \<open>\<open>diff()\<close>: the first entry is NaN, every other one the difference to its predecessor.\<close>

definition diff :: "fl list \<Rightarrow> fl list" where
  "diff xs = map (\<lambda>i. if i = 0 then NaN else fsub (xs ! i) (xs ! (i - 1))) [0..<length xs]"

text \<open>\<open>s.where(cond, 0)\<close> keeps an entry where the condition holds and puts 0 elsewhere.\<close>

definition where_0 :: "(fl \<Rightarrow> bool) \<Rightarrow> fl list \<Rightarrow> fl list" where
  "where_0 c xs = map (\<lambda>x. if c x then x else Fin 0) xs"

text \<open>
  \<open>ewm(span=s, adjust=False).mean()\<close> on a column of finite values: the smoothing factor
  is \<open>2 / (s + 1)\<close>, the first output is the first input, and each later output is
  \<open>(1 - \<alpha>) * y + \<alpha> * x\<close> for the previous output \<open>y\<close> and the input \<open>x\<close>.
\<close>

fun ewm_from :: "real \<Rightarrow> real \<Rightarrow> real list \<Rightarrow> real list" where
  "ewm_from \<alpha> y [] = []"
| "ewm_from \<alpha> y (x # xs) = (let y' = (1 - \<alpha>) * y + \<alpha> * x in y' # ewm_from \<alpha> y' xs)"

definition ewm_mean :: "nat \<Rightarrow> real list \<Rightarrow> real list" where
  "ewm_mean sp xs =
     (case xs of [] \<Rightarrow> [] | x # rest \<Rightarrow> x # ewm_from (2 / (real sp + 1)) x rest)"

section \<open>The indicator engine\<close>

text \<open>
  A downloaded frame is a list of daily bars, oldest first; the program reads the columns
  \<open>Close\<close> and \<open>Volume\<close> only, which hold finite numbers.
\<close>

record bar =
  close :: real
  volume :: real

record frame =
  Close :: "fl list"
  Volume :: "fl list"
  SMA_50 :: "fl list"
  SMA_150 :: "fl list"
  SMA_200 :: "fl list"
  Vol_SMA :: "fl list"
  MACD_Line :: "fl list"
  Signal_Line :: "fl list"
  MACD_Hist :: "fl list"
  RSI :: "fl list"

definition rsi_of_rs :: "fl \<Rightarrow> fl" where
  "rsi_of_rs rs = fsub (Fin 100) (fdiv (Fin 100) (fadd (Fin 1) rs))"

definition ema12 :: "bar list \<Rightarrow> real list" where
  "ema12 df = ewm_mean 12 (map close df)"

definition ema26 :: "bar list \<Rightarrow> real list" where
  "ema26 df = ewm_mean 26 (map close df)"

definition macd_line :: "bar list \<Rightarrow> real list" where
  "macd_line df = map2 (-) (ema12 df) (ema26 df)"

definition signal_line :: "bar list \<Rightarrow> real list" where
  "signal_line df = ewm_mean 9 (macd_line df)"

definition macd_hist :: "bar list \<Rightarrow> real list" where
  "macd_hist df = map2 (-) (macd_line df) (signal_line df)"

definition delta :: "bar list \<Rightarrow> fl list" where
  "delta df = diff (map (Fin \<circ> close) df)"

definition gain :: "bar list \<Rightarrow> fl list" where
  "gain df = where_0 (\<lambda>x. fl_gt x (Fin 0)) (delta df)"

definition loss :: "bar list \<Rightarrow> fl list" where
  "loss df = map fneg (where_0 (\<lambda>x. fl_lt x (Fin 0)) (delta df))"

definition avg_gain :: "bar list \<Rightarrow> fl list" where
  "avg_gain df = rolling_mean 14 (gain df)"

definition avg_loss :: "bar list \<Rightarrow> fl list" where
  "avg_loss df = rolling_mean 14 (loss df)"

definition rs :: "bar list \<Rightarrow> fl list" where
  "rs df = map2 fdiv (avg_gain df) (avg_loss df)"

definition calculate_indicators :: "bar list \<Rightarrow> frame" where
  "calculate_indicators df =
     \<lparr> Close = map (Fin \<circ> close) df,
       Volume = map (Fin \<circ> volume) df,
       SMA_50 = rolling_mean 50 (map (Fin \<circ> close) df),
       SMA_150 = rolling_mean 150 (map (Fin \<circ> close) df),
       SMA_200 = rolling_mean 200 (map (Fin \<circ> close) df),
       Vol_SMA = rolling_mean 20 (map (Fin \<circ> volume) df),
       MACD_Line = map Fin (macd_line df),
       Signal_Line = map Fin (signal_line df),
       MACD_Hist = map Fin (macd_hist df),
       RSI = map rsi_of_rs (rs df) \<rparr>"

section \<open>The signal evaluator and the instrument analyzer\<close>

text \<open>
  \<open>trend_strong\<close>, \<open>macd_above_zero\<close>, \<open>macd_trigger\<close>, \<open>rsi_check\<close>, \<open>vol_ratio\<close> and
  \<open>vol_check\<close> are the local variables of \<open>analyze_stock\<close>; \<open>c\<close> and \<open>p\<close> are the
  positions of \<open>curr = df.iloc[-1]\<close> and \<open>prev = df.iloc[-2]\<close>. A chained comparison
  \<open>a > b > c\<close> is \<open>a > b and b > c\<close>.
\<close>

definition trend_strong :: "frame \<Rightarrow> nat \<Rightarrow> bool" where
  "trend_strong df c =
     (fl_gt (Close df ! c) (SMA_50 df ! c) \<and> fl_gt (SMA_50 df ! c) (SMA_150 df ! c)
      \<and> fl_gt (SMA_150 df ! c) (SMA_200 df ! c))"

definition macd_above_zero :: "frame \<Rightarrow> nat \<Rightarrow> bool" where
  "macd_above_zero df c = fl_gt (MACD_Line df ! c) (Fin 0)"

definition macd_trigger :: "frame \<Rightarrow> nat \<Rightarrow> nat \<Rightarrow> bool" where
  "macd_trigger df c p =
     ((fl_lt (MACD_Hist df ! p) (Fin 0) \<and> fl_gt (MACD_Hist df ! c) (Fin 0))
      \<or> (fl_gt (MACD_Hist df ! c) (Fin 0) \<and> fl_gt (MACD_Hist df ! c) (MACD_Hist df ! p)))"

definition rsi_check :: "frame \<Rightarrow> nat \<Rightarrow> bool" where
  "rsi_check df c = (fl_lt (Fin 50) (RSI df ! c) \<and> fl_lt (RSI df ! c) (Fin 85))"

definition vol_ratio :: "frame \<Rightarrow> nat \<Rightarrow> py_error + fl" where
  "vol_ratio df c =
     (if fl_gt (Vol_SMA df ! c) (Fin 0) then py_truediv (Volume df ! c) (Vol_SMA df ! c)
      else Inr (Fin 0))"

definition vol_check :: "fl \<Rightarrow> bool" where
  "vol_check vr = fl_gt vr (Fin (12 / 10))"

record result =
  symbol :: string
  price :: fl
  change :: fl
  r_vol_ratio :: fl
  rsi :: fl
  score :: fl

text \<open>
  Lines 58 to 100 of \<open>analyze_stock\<close>, on a frame of at least two rows: \<open>Inl\<close> is an
  exception raised on the way, \<open>Inr None\<close> the return of \<open>None\<close>, \<open>Inr (Some r)\<close> the
  returned dictionary.
\<close>

definition evaluate :: "string \<Rightarrow> frame \<Rightarrow> py_error + result option" where
  "evaluate ticker df =
     (let c = length (Close df) - 1; p = length (Close df) - 2; pr = Close df ! c
      in case vol_ratio df c of
           Inl e \<Rightarrow> Inl e
         | Inr vr \<Rightarrow>
             if trend_strong df c \<and> macd_above_zero df c \<and> macd_trigger df c p
                \<and> rsi_check df c \<and> vol_check vr
             then (case py_truediv (fsub pr (Close df ! p)) (Close df ! p) of
                     Inl e \<Rightarrow> Inl e
                   | Inr q \<Rightarrow>
                       Inr (Some \<lparr> symbol = ticker,
                                   price = py_round pr 2,
                                   change = py_round (fmul q (Fin 100)) 2,
                                   r_vol_ratio = py_round vr 2,
                                   rsi = py_round (RSI df ! c) 2,
                                   score = py_round (fadd (RSI df ! c) (fmul vr (Fin 10))) 0 \<rparr>))
             else Inr None)"

text \<open>
  The body of the \<open>try\<close>: \<open>download\<close> stands for \<open>yf.download\<close>, which returns a frame
  or raises.
\<close>

definition analyze_body :: "(string \<Rightarrow> py_error + bar list) \<Rightarrow> string \<Rightarrow> py_error + result option" where
  "analyze_body download ticker =
     (case download ticker of
        Inl e \<Rightarrow> Inl e
      | Inr df \<Rightarrow>
          if df = [] \<or> length df < 200 then Inr None
          else evaluate ticker (calculate_indicators df))"

text \<open>\<open>except Exception: return None\<close>.\<close>

definition analyze_stock :: "(string \<Rightarrow> py_error + bar list) \<Rightarrow> string \<Rightarrow> result option" where
  "analyze_stock download ticker =
     (case analyze_body download ticker of Inl e \<Rightarrow> None | Inr r \<Rightarrow> r)"

section \<open>The scan coordinator\<close>

text \<open>
  \<open>results.sort(key=score, reverse=True)\<close> is a stable sort: of two entries the one of
  larger key comes first, and entries of equal key keep their order. The futures are
  read in the order of submission, that of the universe, and a result that is not
  \<open>None\<close> is appended.
\<close>

fun insert_desc :: "result \<Rightarrow> result list \<Rightarrow> result list" where
  "insert_desc x [] = [x]"
| "insert_desc x (y # ys) =
     (if fl_lt (score x) (score y) then y # insert_desc x ys else x # y # ys)"

fun sort_desc :: "result list \<Rightarrow> result list" where
  "sort_desc [] = []"
| "sort_desc (x # xs) = insert_desc x (sort_desc xs)"

fun collect :: "(string \<Rightarrow> py_error + bar list) \<Rightarrow> string list \<Rightarrow> result list" where
  "collect download [] = []"
| "collect download (t # ts) =
     (case analyze_stock download t of
        None \<Rightarrow> collect download ts
      | Some res \<Rightarrow> res # collect download ts)"

definition run_scan :: "(string \<Rightarrow> py_error + bar list) \<Rightarrow> string list \<Rightarrow> result list" where
  "run_scan download universe = sort_desc (collect download universe)"

definition tickers :: "string list" where
  "tickers =
     [''NVDA'', ''AMD'', ''TSLA'', ''MSFT'', ''AAPL'', ''META'', ''AMZN'', ''GOOGL'', ''NFLX'',
      ''PLTR'', ''COIN'', ''MARA'', ''MSTR'', ''SMCI'', ''ARM'', ''AVGO'', ''TSM'', ''ORCL'',
      ''PANW'', ''CRWD'', ''UBER'', ''ABNB'', ''SHOP'', ''SQ'', ''DKNG'', ''HOOD'', ''AFRM'',
      ''UPST'', ''CVNA'', ''RIVN'', ''LCID'', ''SOFI'', ''AI'', ''PATH'', ''U'', ''NET'']"

section \<open>Reference quantities and sample histories\<close>

text \<open>
  The quantities the columns are compared with: \<open>ups\<close> and \<open>downs\<close> are the per-bar
  gain \<open>max(delta, 0)\<close> and loss \<open>max(-delta, 0)\<close>, with 0 at the first bar, which has no
  predecessor; \<open>sma n xs i\<close> is the arithmetic mean of the \<open>n\<close> entries of \<open>xs\<close> ending at
  position \<open>i\<close>; \<open>ema_spec k xs i\<close> is the exponential average given by its recurrence,
  seeded by the first value.
\<close>

definition ups :: "bar list \<Rightarrow> real list" where
  "ups df =
     map (\<lambda>i. if i = 0 then 0 else max (close (df ! i) - close (df ! (i - 1))) 0)
       [0..<length df]"

definition downs :: "bar list \<Rightarrow> real list" where
  "downs df =
     map (\<lambda>i. if i = 0 then 0 else max (close (df ! (i - 1)) - close (df ! i)) 0)
       [0..<length df]"

definition sma :: "nat \<Rightarrow> real list \<Rightarrow> nat \<Rightarrow> real" where
  "sma n xs i = sum_list (take n (drop (Suc i - n) xs)) / real n"

fun ema_spec :: "real \<Rightarrow> real list \<Rightarrow> nat \<Rightarrow> real" where
  "ema_spec k xs 0 = xs ! 0"
| "ema_spec k xs (Suc i) = xs ! Suc i * k + ema_spec k xs i * (1 - k)"

text \<open>
  Sample histories of 200 bars: 197 bars closing at 10 on a volume of 1000, then three
  bars closing at \<open>a\<close>, \<open>b\<close> and \<open>c\<close>, the last one on the volume \<open>v\<close>. \<open>flat\<close> is a
  history of 220 bars that never moves. \<open>world\<close> is a data source serving five symbols
  and raising for every other one.
\<close>

definition hist :: "real \<Rightarrow> real \<Rightarrow> real \<Rightarrow> real \<Rightarrow> bar list" where
  "hist a b c v =
     replicate 197 \<lparr>close = 10, volume = 1000\<rparr> @
     [\<lparr>close = a, volume = 1000\<rparr>, \<lparr>close = b, volume = 1000\<rparr>, \<lparr>close = c, volume = v\<rparr>]"

definition flat :: "bar list" where
  "flat = replicate 220 \<lparr>close = 10, volume = 1000\<rparr>"

definition world :: "string \<Rightarrow> py_error + bar list" where
  "world s =
     (if s = ''A'' then Inr (hist 12 11 14 2000)
      else if s = ''B'' then Inr (hist 12 11 14 3000)
      else if s = ''C'' then Inr (hist 12 11 14 2000)
      else if s = ''Z'' then Inr (hist 12 0 30 2000)
      else if s = ''F'' then Inr flat
      else Inl DownloadError)"

section \<open>Columns of the indicator engine\<close>

lemma fsum_from_Fin: "foldl fadd (Fin a) (map Fin xs) = Fin (a + sum_list xs)"
  by (induction xs arbitrary: a) (simp_all add: add.assoc)

lemma fsum_Fin: "fsum (map Fin xs) = Fin (sum_list xs)"
  by (simp add: fsum_def fsum_from_Fin)

lemma window_Fin: "window n (map Fin xs) i = map Fin (take n (drop (Suc i - n) xs))"
  by (simp add: window_def take_map drop_map)

lemma length_rolling_mean: "length (rolling_mean n xs) = length xs"
  by (simp add: rolling_mean_def)

lemma rolling_mean_Fin_nth:
  assumes "i < length xs" and "0 < n"
  shows "rolling_mean n (map Fin xs) ! i =
         (if Suc i < n then NaN else Fin (sum_list (take n (drop (Suc i - n) xs)) / real n))"
  using assms by (simp add: rolling_mean_def fsum_Fin window_Fin)

lemma length_ewm_from: "length (ewm_from a y xs) = length xs"
  by (induction xs arbitrary: y) (simp_all add: Let_def)

lemma length_ewm_mean: "length (ewm_mean sp xs) = length xs"
  by (simp add: ewm_mean_def length_ewm_from split: list.splits)

lemma length_macd_line: "length (macd_line df) = length df"
  by (simp add: macd_line_def ema12_def ema26_def length_ewm_mean)

lemma length_signal_line: "length (signal_line df) = length df"
  by (simp add: signal_line_def length_ewm_mean length_macd_line)

lemma length_macd_hist: "length (macd_hist df) = length df"
  by (simp add: macd_hist_def length_signal_line length_macd_line)

lemma length_delta: "length (delta df) = length df"
  by (simp add: delta_def diff_def)

lemma length_gain: "length (gain df) = length df"
  by (simp add: gain_def where_0_def length_delta)

lemma length_loss: "length (loss df) = length df"
  by (simp add: loss_def where_0_def length_delta)

lemma length_rs: "length (rs df) = length df"
  by (simp add: rs_def avg_gain_def avg_loss_def length_rolling_mean length_gain length_loss)

lemma delta_nth:
  "i < length df \<Longrightarrow> delta df ! i = (if i = 0 then NaN else Fin (close (df ! i) - close (df ! (i - 1))))"
  by (simp add: delta_def diff_def fsub_def)

lemma gain_ups: "gain df = map Fin (ups df)"
  by (rule nth_equalityI) (simp_all add: length_gain ups_def gain_def where_0_def length_delta delta_nth fl_gt_def max_def)

lemma loss_downs: "loss df = map Fin (downs df)"
  by (rule nth_equalityI) (simp_all add: length_loss downs_def loss_def where_0_def length_delta delta_nth max_def)

lemma rolling_mean_sma:
  "i < length xs \<Longrightarrow> 0 < n \<Longrightarrow> rolling_mean n (map Fin xs) ! i = (if Suc i < n then NaN else Fin (sma n xs i))"
  by (simp add: rolling_mean_Fin_nth sma_def)

lemma avg_gain_nth:
  "i < length df \<Longrightarrow> avg_gain df ! i = (if Suc i < 14 then NaN else Fin (sma 14 (ups df) i))"
  using rolling_mean_sma [of i "ups df" 14] by (simp add: avg_gain_def gain_ups ups_def)

lemma avg_loss_nth:
  "i < length df \<Longrightarrow> avg_loss df ! i = (if Suc i < 14 then NaN else Fin (sma 14 (downs df) i))"
  using rolling_mean_sma [of i "downs df" 14] by (simp add: avg_loss_def loss_downs downs_def)

lemma rs_nth: "i < length df \<Longrightarrow> rs df ! i = fdiv (avg_gain df ! i) (avg_loss df ! i)"
  by (simp add: rs_def avg_gain_def avg_loss_def length_rolling_mean length_gain length_loss)

lemma Close_nth: "i < length df \<Longrightarrow> Close (calculate_indicators df) ! i = Fin (close (df ! i))"
  by (simp add: calculate_indicators_def)

lemma Volume_nth: "i < length df \<Longrightarrow> Volume (calculate_indicators df) ! i = Fin (volume (df ! i))"
  by (simp add: calculate_indicators_def)

lemma length_Close: "length (Close (calculate_indicators df)) = length df"
  by (simp add: calculate_indicators_def)

lemma SMA_50_nth: "i < length df \<Longrightarrow> SMA_50 (calculate_indicators df) ! i =
    (if Suc i < 50 then NaN else Fin (sma 50 (map close df) i))"
  using rolling_mean_sma [of i "map close df" 50] by (simp add: calculate_indicators_def)

lemma SMA_150_nth: "i < length df \<Longrightarrow> SMA_150 (calculate_indicators df) ! i =
    (if Suc i < 150 then NaN else Fin (sma 150 (map close df) i))"
  using rolling_mean_sma [of i "map close df" 150] by (simp add: calculate_indicators_def)

lemma SMA_200_nth: "i < length df \<Longrightarrow> SMA_200 (calculate_indicators df) ! i =
    (if Suc i < 200 then NaN else Fin (sma 200 (map close df) i))"
  using rolling_mean_sma [of i "map close df" 200] by (simp add: calculate_indicators_def)

lemma Vol_SMA_nth: "i < length df \<Longrightarrow> Vol_SMA (calculate_indicators df) ! i =
    (if Suc i < 20 then NaN else Fin (sma 20 (map volume df) i))"
  using rolling_mean_sma [of i "map volume df" 20] by (simp add: calculate_indicators_def)

lemma MACD_Line_nth: "i < length df \<Longrightarrow> MACD_Line (calculate_indicators df) ! i = Fin (macd_line df ! i)"
  by (simp add: calculate_indicators_def length_macd_line)

lemma Signal_Line_nth: "i < length df \<Longrightarrow> Signal_Line (calculate_indicators df) ! i = Fin (signal_line df ! i)"
  by (simp add: calculate_indicators_def length_signal_line)

lemma MACD_Hist_nth: "i < length df \<Longrightarrow> MACD_Hist (calculate_indicators df) ! i = Fin (macd_hist df ! i)"
  by (simp add: calculate_indicators_def length_macd_hist)

lemma RSI_nth: "i < length df \<Longrightarrow> RSI (calculate_indicators df) ! i = rsi_of_rs (fdiv (avg_gain df ! i) (avg_loss df ! i))"
  by (simp add: calculate_indicators_def length_rs rs_nth)

section \<open>The sample histories, evaluated\<close>

lemma ewm_from_const: "ewm_from a c (replicate n c @ ys) = replicate n c @ ewm_from a c ys"
  by (induction n) (simp_all add: Let_def algebra_simps)

lemma ewm_mean_const:
  "0 < n \<Longrightarrow> ewm_mean sp (replicate n c @ ys) = replicate n c @ ewm_from (2 / (real sp + 1)) c ys"
  by (cases n) (simp_all add: ewm_mean_def ewm_from_const)

lemma hist_len: "length (hist a b c v) = 200" by (simp add: hist_def)
lemma hist_ne: "hist a b c v \<noteq> []" by (simp add: hist_def)
lemma hist_close: "map close (hist a b c v) = replicate 197 10 @ [a, b, c]" by (simp add: hist_def)
lemma hist_volume: "map volume (hist a b c v) = replicate 197 1000 @ [1000, 1000, v]" by (simp add: hist_def)
lemma hist_last: "hist a b c v ! 199 = \<lparr>close = c, volume = v\<rparr>" "hist a b c v ! 198 = \<lparr>close = b, volume = 1000\<rparr>"
  by (simp_all add: hist_def nth_append)

lemma hist_macd: "macd_line (hist a b c v) = replicate 197 0 @ map2 (-) (ewm_from (2/13) 10 [a, b, c]) (ewm_from (2/27) 10 [a, b, c])"
  by (simp add: macd_line_def ema12_def ema26_def hist_close ewm_mean_const length_ewm_from)

lemma hist_signal: "signal_line (hist a b c v) = replicate 197 0 @ ewm_from (2/10) 0 (map2 (-) (ewm_from (2/13) 10 [a, b, c]) (ewm_from (2/27) 10 [a, b, c]))"
  by (simp add: signal_line_def hist_macd ewm_mean_const)

lemma hist_macd_gates:
  "macd_above_zero (calculate_indicators (hist 12 11 14 v)) 199"
  "macd_trigger (calculate_indicators (hist 12 11 14 v)) 199 198"
  "macd_above_zero (calculate_indicators (hist 12 0 30 v)) 199"
  "macd_trigger (calculate_indicators (hist 12 0 30 v)) 199 198"
  by (simp_all add: macd_above_zero_def macd_trigger_def MACD_Line_nth MACD_Hist_nth hist_len
      fl_gt_def macd_hist_def hist_macd hist_signal nth_append Let_def)

lemma hist_ups: "take 14 (drop 186 (ups (hist a b c v))) =
    [0, 0, 0, 0, 0, 0, 0, 0, 0, 0, 0, max (a - 10) 0, max (b - a) 0, max (c - b) 0]"
  by (simp add: ups_def hist_def nth_append drop_map take_map)

lemma hist_downs: "take 14 (drop 186 (downs (hist a b c v))) =
    [0, 0, 0, 0, 0, 0, 0, 0, 0, 0, 0, max (10 - a) 0, max (a - b) 0, max (b - c) 0]"
  by (simp add: downs_def hist_def nth_append drop_map take_map)

lemma hist_RSI:
  "RSI (calculate_indicators (hist 12 11 14 v)) ! 199 = Fin (250 / 3)"
  "RSI (calculate_indicators (hist 12 0 30 v)) ! 199 = Fin (800 / 11)"
  by (simp_all add: RSI_nth hist_len avg_gain_nth avg_loss_nth sma_def hist_ups hist_downs
      rsi_of_rs_def fsub_def)

lemma hist_trend:
  "trend_strong (calculate_indicators (hist 12 11 14 v)) 199"
  "trend_strong (calculate_indicators (hist 12 0 30 v)) 199"
  by (simp_all add: trend_strong_def Close_nth SMA_50_nth SMA_150_nth SMA_200_nth hist_len
      fl_gt_def sma_def hist_close sum_list_replicate hist_last)

lemma hist_vol_ratio:
  "0 < v \<Longrightarrow> vol_ratio (calculate_indicators (hist a b c v)) 199 = Inr (Fin (v / ((19000 + v) / 20)))"
  by (simp add: vol_ratio_def Vol_SMA_nth Volume_nth hist_len fl_gt_def sma_def hist_volume
      py_truediv_def sum_list_replicate hist_last)

lemma analyze_body_hist_pass:
  assumes "download t = Inr (hist 12 11 14 v)" and "v = 2000 \<or> v = 3000"
  shows "analyze_body download t =
     Inr (Some \<lparr>symbol = t, price = Fin 14, change = Fin (2727 / 100),
       r_vol_ratio = Fin (if v = 2000 then 19 / 10 else 273 / 100), rsi = Fin (8333 / 100),
       score = Fin (if v = 2000 then 102 else 111)\<rparr>)"
  using assms
  by (auto simp add: analyze_body_def evaluate_def hist_len hist_ne length_Close hist_trend
      hist_macd_gates rsi_check_def hist_RSI hist_vol_ratio vol_check_def fl_gt_def Close_nth
      py_truediv_def fsub_def hist_last round_half_even_def Let_def)

lemma analyze_body_hist_zero:
  assumes "download t = Inr (hist 12 0 30 2000)"
  shows "analyze_body download t = Inl ZeroDivisionError"
  using assms
  by (simp add: analyze_body_def evaluate_def hist_len hist_ne length_Close hist_trend
      hist_macd_gates rsi_check_def hist_RSI hist_vol_ratio vol_check_def fl_gt_def Close_nth
      py_truediv_def fsub_def hist_last Let_def)

lemma analyze_world_pass:
  "analyze_stock world ''A'' = Some \<lparr>symbol = ''A'', price = Fin 14, change = Fin (2727 / 100),
       r_vol_ratio = Fin (19 / 10), rsi = Fin (8333 / 100), score = Fin 102\<rparr>"
  "analyze_stock world ''B'' = Some \<lparr>symbol = ''B'', price = Fin 14, change = Fin (2727 / 100),
       r_vol_ratio = Fin (273 / 100), rsi = Fin (8333 / 100), score = Fin 111\<rparr>"
  "analyze_stock world ''C'' = Some \<lparr>symbol = ''C'', price = Fin 14, change = Fin (2727 / 100),
       r_vol_ratio = Fin (19 / 10), rsi = Fin (8333 / 100), score = Fin 102\<rparr>"
  using analyze_body_hist_pass [of world "''A''" 2000] analyze_body_hist_pass [of world "''B''" 3000]
    analyze_body_hist_pass [of world "''C''" 2000]
  by (simp_all add: analyze_stock_def world_def)

section \<open>Rounding\<close>

lemma round_half_even_ge_floor: "\<lfloor>x\<rfloor> \<le> round_half_even x"
  by (simp add: round_half_even_def Let_def)

lemma round_half_even_lower: "x - 1 / 2 \<le> of_int (round_half_even x)"
  unfolding round_half_even_def Let_def by (auto; linarith)

lemma round_half_even_upper: "of_int (round_half_even x) \<le> x + 1 / 2"
  unfolding round_half_even_def Let_def by (auto; linarith)

lemma round_half_even_nearest: "\<bar>of_int (round_half_even x) - x\<bar> \<le> 1 / 2"
  using round_half_even_lower [of x] round_half_even_upper [of x] by linarith

lemma round_half_even_above: "of_int n < x \<Longrightarrow> n \<le> round_half_even x"
proof -
  assume "of_int n < x"
  then have "n \<le> \<lfloor>x\<rfloor>" by (simp add: le_floor_iff)
  then show ?thesis using round_half_even_ge_floor [of x] by linarith
qed

section \<open>The analysis of one instrument\<close>

lemma rsi_check_D:
  assumes "rsi_check F c"
  obtains x where "RSI F ! c = Fin x" and "50 < x" and "x < 85"
  using assms unfolding rsi_check_def by (cases "RSI F ! c") auto

lemma vol_ratio_ci:
  assumes "i < length df"
  shows "vol_ratio (calculate_indicators df) i =
     Inr (Fin (if 19 \<le> i \<and> 0 < sma 20 (map volume df) i
               then volume (df ! i) / sma 20 (map volume df) i else 0))"
  using assms by (auto simp add: vol_ratio_def Vol_SMA_nth Volume_nth fl_gt_def py_truediv_def)

lemma analyze_body_Some_D:
  assumes "analyze_body download t = Inr (Some r)"
  obtains df x w where
    "download t = Inr df" and "200 \<le> length df"
    and "trend_strong (calculate_indicators df) (length df - 1)"
    and "macd_above_zero (calculate_indicators df) (length df - 1)"
    and "macd_trigger (calculate_indicators df) (length df - 1) (length df - 2)"
    and "RSI (calculate_indicators df) ! (length df - 1) = Fin x" and "50 < x" and "x < 85"
    and "vol_ratio (calculate_indicators df) (length df - 1) = Inr (Fin w)" and "12 / 10 < w"
    and "close (df ! (length df - 2)) \<noteq> 0"
    and "r = \<lparr>symbol = t,
              price = py_round (Fin (close (df ! (length df - 1)))) 2,
              change = py_round (Fin ((close (df ! (length df - 1)) - close (df ! (length df - 2)))
                           / close (df ! (length df - 2)) * 100)) 2,
              r_vol_ratio = py_round (Fin w) 2,
              rsi = py_round (Fin x) 2,
              score = py_round (Fin (x + w * 10)) 0\<rparr>"
proof -
  from assms obtain df where d: "download t = Inr df"
    by (cases "download t") (simp_all add: analyze_body_def)
  with assms have len: "200 \<le> length df"
    by (auto simp add: analyze_body_def split: if_splits)
  let ?F = "calculate_indicators df"
  let ?c = "length df - 1"
  let ?p = "length df - 2"
  from assms d len have ev: "evaluate t ?F = Inr (Some r)"
    by (auto simp add: analyze_body_def split: if_splits)
  have c: "?c < length df" and p: "?p < length df" using len by simp_all
  obtain w where vr: "vol_ratio ?F ?c = Inr (Fin w)"
    using vol_ratio_ci [OF c] by blast
  from ev vr have gates: "trend_strong ?F ?c" "macd_above_zero ?F ?c" "macd_trigger ?F ?c ?p"
      "rsi_check ?F ?c" "vol_check (Fin w)"
    by (auto simp add: evaluate_def Let_def length_Close split: if_splits)
  from gates(4) obtain x where x: "RSI ?F ! ?c = Fin x" "50 < x" "x < 85"
    by (rule rsi_check_D)
  from gates(5) have w: "12 / 10 < w" by (simp add: vol_check_def fl_gt_def)
  have cl: "Close ?F ! ?c = Fin (close (df ! ?c))" and pl: "Close ?F ! ?p = Fin (close (df ! ?p))"
    using c p by (simp_all only: Close_nth)
  from ev vr gates have dv: "(case py_truediv (fsub (Fin (close (df ! ?c))) (Fin (close (df ! ?p))))
                 (Fin (close (df ! ?p))) of
            Inl e \<Rightarrow> Inl e
          | Inr q \<Rightarrow> Inr (Some \<lparr>symbol = t, price = py_round (Fin (close (df ! ?c))) 2,
                change = py_round (fmul q (Fin 100)) 2, r_vol_ratio = py_round (Fin w) 2,
                rsi = py_round (RSI ?F ! ?c) 2,
                score = py_round (fadd (RSI ?F ! ?c) (fmul (Fin w) (Fin 10))) 0\<rparr>))
         = Inr (Some r)"
    unfolding evaluate_def Let_def length_Close cl pl by simp
  then have pc: "close (df ! ?p) \<noteq> 0"
    by (auto simp add: py_truediv_def split: if_splits)
  from dv pc x(1) have r: "r = \<lparr>symbol = t,
              price = py_round (Fin (close (df ! ?c))) 2,
              change = py_round (Fin ((close (df ! ?c) - close (df ! ?p)) / close (df ! ?p) * 100)) 2,
              r_vol_ratio = py_round (Fin w) 2,
              rsi = py_round (Fin x) 2,
              score = py_round (Fin (x + w * 10)) 0\<rparr>"
    by (simp add: py_truediv_def fsub_def del: py_round.simps)
  show thesis using that [OF d len gates(1-3) x vr w pc r] .
qed

lemma analyze_stock_Some_body: "analyze_stock download t = Some r \<longleftrightarrow> analyze_body download t = Inr (Some r)"
  by (cases "analyze_body download t") (simp_all add: analyze_stock_def)

section \<open>Insufficient history\<close>

text \<open>
  Claim C4. When the data source delivers a history that is empty or has fewer than 200
  bars, \<open>analyze_stock\<close> returns \<open>None\<close>: the outcome is the ordinary return value, no
  exception is involved.
\<close>

theorem short_history_absent:
  assumes "download t = Inr df" and "df = [] \<or> length df < 200"
  shows "analyze_stock download t = None"
  using assms by (auto simp add: analyze_stock_def analyze_body_def)

theorem short_history_absent_witness:
  "analyze_stock (\<lambda>s. Inr (replicate 199 \<lparr>close = 10, volume = 5\<rparr>)) ''NVDA'' = None
   \<and> analyze_stock (\<lambda>s. Inr []) ''NVDA'' = None"
  using short_history_absent [of "\<lambda>s. Inr (replicate 199 \<lparr>close = 10, volume = 5\<rparr>)" "''NVDA''"
      "replicate 199 \<lparr>close = 10, volume = 5\<rparr>"]
    short_history_absent [of "\<lambda>s. Inr []" "''NVDA''" "[]"]
  by simp

section \<open>The emitted score\<close>

text \<open>
  Claim C10. Every record returned by \<open>analyze_stock\<close> has, before rounding,
  \<open>50 < rsi < 85\<close> and \<open>vol_ratio > 1.2\<close>; so the unrounded composite
  \<open>rsi + vol_ratio * 10\<close> exceeds 62 and the emitted score is an integer of at least 62.
\<close>

theorem emitted_score_at_least_62:
  assumes "analyze_stock download t = Some r"
  shows "\<exists>df x w s. download t = Inr df \<and> 200 \<le> length df
           \<and> RSI (calculate_indicators df) ! (length df - 1) = Fin x
           \<and> vol_ratio (calculate_indicators df) (length df - 1) = Inr (Fin w)
           \<and> 50 < x \<and> x < 85 \<and> 12 / 10 < w \<and> 62 < x + w * 10
           \<and> score r = Fin (of_int s) \<and> s = round_half_even (x + w * 10) \<and> 62 \<le> s"
proof -
  from assms have "analyze_body download t = Inr (Some r)"
    by (simp add: analyze_stock_Some_body)
  then obtain df x w where d: "download t = Inr df" "200 \<le> length df"
    and x: "RSI (calculate_indicators df) ! (length df - 1) = Fin x" "50 < x" "x < 85"
    and w: "vol_ratio (calculate_indicators df) (length df - 1) = Inr (Fin w)" "12 / 10 < w"
    and r: "score r = py_round (Fin (x + w * 10)) 0"
    by (rule analyze_body_Some_D) simp
  from x(2) w(2) have c: "62 < x + w * 10" by simp
  then have "of_int 62 < x + w * 10" by simp
  then have "62 \<le> round_half_even (x + w * 10)" by (rule round_half_even_above)
  with d x w r c show ?thesis by simp
qed

theorem emitted_score_at_least_62_witness:
  "analyze_stock world ''A'' = Some \<lparr>symbol = ''A'', price = Fin 14, change = Fin (2727 / 100),
       r_vol_ratio = Fin (19 / 10), rsi = Fin (8333 / 100), score = Fin 102\<rparr>
   \<and> (\<exists>df x w s. world ''A'' = Inr df \<and> 200 \<le> length df
           \<and> RSI (calculate_indicators df) ! (length df - 1) = Fin x
           \<and> vol_ratio (calculate_indicators df) (length df - 1) = Inr (Fin w)
           \<and> 50 < x \<and> x < 85 \<and> 12 / 10 < w \<and> 62 < x + w * 10
           \<and> Fin 102 = Fin (of_int s) \<and> s = round_half_even (x + w * 10) \<and> 62 \<le> s)"
proof -
  have a: "analyze_stock world ''A'' = Some \<lparr>symbol = ''A'', price = Fin 14, change = Fin (2727 / 100),
       r_vol_ratio = Fin (19 / 10), rsi = Fin (8333 / 100), score = Fin 102\<rparr>"
    by (rule analyze_world_pass(1))
  show ?thesis using a emitted_score_at_least_62 [OF a] by simp
qed

section \<open>The volume ratio\<close>

lemma sma_nonneg:
  assumes "\<forall>x \<in> set xs. 0 \<le> x"
  shows "0 \<le> sma n xs i"
proof -
  have "\<forall>x \<in> set (take n (drop (Suc i - n) xs)). 0 \<le> x"
    using assms by (meson in_set_dropD in_set_takeD)
  then have "0 \<le> sum_list (take n (drop (Suc i - n) xs))" by (simp add: sum_list_nonneg)
  then show ?thesis by (simp add: sma_def)
qed

lemma vol_ratio_no_fault: "vol_ratio F j \<noteq> Inl e"
  by (cases "Vol_SMA F ! j") (simp_all add: vol_ratio_def py_truediv_def fl_gt_def)

text \<open>
  Claim C6. For a history whose volumes are not negative, the volume ratio at any bar is
  a finite number that is not negative, the quotient \<open>volume / Vol_SMA\<close> where the
  20-bar average exists and is positive. On any frame, when \<open>Vol_SMA\<close> is not greater
  than 0 (it is NaN, or a number not above 0) the ratio is exactly 0, and computing the
  ratio never raises.
\<close>

theorem vol_ratio_safe:
  assumes "\<forall>b \<in> set df. 0 \<le> volume b" and "i < length df"
  shows "(\<exists>w. vol_ratio (calculate_indicators df) i = Inr (Fin w) \<and> 0 \<le> w
            \<and> (19 \<le> i \<and> 0 < sma 20 (map volume df) i
                 \<longrightarrow> Vol_SMA (calculate_indicators df) ! i = Fin (sma 20 (map volume df) i)
                     \<and> w = volume (df ! i) / sma 20 (map volume df) i))
         \<and> (\<forall>F j. \<not> fl_gt (Vol_SMA F ! j) (Fin 0) \<longrightarrow> vol_ratio F j = Inr (Fin 0))
         \<and> (\<forall>F j s. Vol_SMA F ! j = NaN \<or> (Vol_SMA F ! j = Fin s \<and> s \<le> 0)
                 \<longrightarrow> vol_ratio F j = Inr (Fin 0))
         \<and> (\<forall>F j e. vol_ratio F j \<noteq> Inl e)"
proof -
  let ?m = "sma 20 (map volume df) i"
  let ?w = "if 19 \<le> i \<and> 0 < ?m then volume (df ! i) / ?m else 0"
  have v: "0 \<le> volume (df ! i)" using assms by simp
  have "0 \<le> ?m" using assms(1) by (intro sma_nonneg) simp
  with v have nn: "0 \<le> ?w" by simp
  have eq: "vol_ratio (calculate_indicators df) i = Inr (Fin ?w)"
    using assms(2) by (rule vol_ratio_ci)
  have sm: "19 \<le> i \<Longrightarrow> Vol_SMA (calculate_indicators df) ! i = Fin ?m"
    using assms(2) by (simp add: Vol_SMA_nth)
  have first: "\<exists>w. vol_ratio (calculate_indicators df) i = Inr (Fin w) \<and> 0 \<le> w
            \<and> (19 \<le> i \<and> 0 < ?m
                 \<longrightarrow> Vol_SMA (calculate_indicators df) ! i = Fin ?m \<and> w = volume (df ! i) / ?m)"
    using eq nn sm by (intro exI [of _ ?w]) simp
  have second: "\<forall>F j. \<not> fl_gt (Vol_SMA F ! j) (Fin 0) \<longrightarrow> vol_ratio F j = Inr (Fin 0)"
    by (simp add: vol_ratio_def)
  have third: "\<forall>F j s. Vol_SMA F ! j = NaN \<or> (Vol_SMA F ! j = Fin s \<and> s \<le> 0)
                 \<longrightarrow> vol_ratio F j = Inr (Fin 0)"
    by (auto simp add: vol_ratio_def fl_gt_def)
  have fourth: "\<forall>F j e. vol_ratio F j \<noteq> Inl e"
    by (simp add: vol_ratio_no_fault)
  from first second third fourth show ?thesis by blast
qed

lemma hist_volume_nonneg: "0 \<le> v \<Longrightarrow> \<forall>b \<in> set (hist a b c v). 0 \<le> volume b"
  by (auto simp add: hist_def)

theorem vol_ratio_safe_witness:
  "199 < length (hist 12 11 14 2000)
   \<and> vol_ratio (calculate_indicators (hist 12 11 14 2000)) 199 = Inr (Fin (40 / 21))
   \<and> (\<exists>w. vol_ratio (calculate_indicators (hist 12 11 14 2000)) 199 = Inr (Fin w) \<and> 0 \<le> w)"
proof -
  have h: "\<forall>b \<in> set (hist 12 11 14 2000). 0 \<le> volume b" by (rule hist_volume_nonneg) simp
  have l: "199 < length (hist 12 11 14 2000)" by (simp add: hist_len)
  have e: "vol_ratio (calculate_indicators (hist 12 11 14 2000)) 199 = Inr (Fin (40 / 21))"
    using hist_vol_ratio [of 2000 12 11 14] by simp
  from vol_ratio_safe [OF h l]
  have "\<exists>w. vol_ratio (calculate_indicators (hist 12 11 14 2000)) 199 = Inr (Fin w) \<and> 0 \<le> w"
    by blast
  with h l e show ?thesis by blast
qed

section \<open>A previous close of zero\<close>

lemma analyze_world_fault:
  "analyze_body world ''Z'' = Inl ZeroDivisionError"
  "analyze_body world ''X'' = Inl DownloadError"
  using analyze_body_hist_zero [of world "''Z''"]
  by (simp_all add: world_def analyze_body_def)

lemma analyze_world_none:
  "analyze_stock world ''Z'' = None" "analyze_stock world ''X'' = None"
  by (simp_all add: analyze_stock_def analyze_world_fault)

text \<open>
  Claim C1, at a history on which the code departs from it. The history \<open>hist 12 0 30 2000\<close>
  has 200 bars and its previous close is 0. All four gates pass at its last two
  positions, yet no record is returned: \<open>(price - prev_close) / prev_close\<close> divides
  Python floats by zero, and the \<open>ZeroDivisionError\<close> is turned into \<open>None\<close> by the
  handler.
\<close>

theorem zero_previous_close_dropped:
  "world ''Z'' = Inr (hist 12 0 30 2000)
   \<and> length (hist 12 0 30 2000) = 200
   \<and> close (hist 12 0 30 2000 ! 198) = 0
   \<and> trend_strong (calculate_indicators (hist 12 0 30 2000)) 199
   \<and> macd_above_zero (calculate_indicators (hist 12 0 30 2000)) 199
   \<and> macd_trigger (calculate_indicators (hist 12 0 30 2000)) 199 198
   \<and> rsi_check (calculate_indicators (hist 12 0 30 2000)) 199
   \<and> vol_ratio (calculate_indicators (hist 12 0 30 2000)) 199 = Inr (Fin (40 / 21))
   \<and> vol_check (Fin (40 / 21))
   \<and> evaluate ''Z'' (calculate_indicators (hist 12 0 30 2000)) = Inl ZeroDivisionError
   \<and> analyze_stock world ''Z'' = None"
proof -
  have w: "world ''Z'' = Inr (hist 12 0 30 2000)" by (simp add: world_def)
  have v: "vol_ratio (calculate_indicators (hist 12 0 30 2000)) 199 = Inr (Fin (40 / 21))"
    using hist_vol_ratio [of 2000 12 0 30] by simp
  have r: "rsi_check (calculate_indicators (hist 12 0 30 2000)) 199"
    by (simp add: rsi_check_def hist_RSI)
  have b: "analyze_body world ''Z'' = Inl ZeroDivisionError" by (rule analyze_world_fault(1))
  then have e: "evaluate ''Z'' (calculate_indicators (hist 12 0 30 2000)) = Inl ZeroDivisionError"
    by (simp add: analyze_body_def w hist_len hist_ne)
  from b have a: "analyze_stock world ''Z'' = None" by (simp add: analyze_stock_def)
  show ?thesis
    using w v r e a hist_trend(2) [of 2000] hist_macd_gates(3,4) [of 2000]
    by (simp add: hist_len hist_last vol_check_def fl_gt_def)
qed

text \<open>
  Claim C7, at the same history. Every gate passes, and the values the record would be
  built from exist: the last close 30, the unrounded RSI \<open>800 / 11\<close> and the unrounded
  volume ratio \<open>40 / 21\<close>. But the previous close is 0, so the expression for the
  percentage change, \<open>(price - prev_close) / prev_close\<close>, raises; no record is built,
  \<open>analyze_stock\<close> returns \<open>None\<close> and the scan of this symbol is empty.
\<close>

theorem zero_previous_close_no_record:
  "length (hist 12 0 30 2000) = 200
   \<and> Close (calculate_indicators (hist 12 0 30 2000)) ! 199 = Fin 30
   \<and> Close (calculate_indicators (hist 12 0 30 2000)) ! 198 = Fin 0
   \<and> RSI (calculate_indicators (hist 12 0 30 2000)) ! 199 = Fin (800 / 11)
   \<and> vol_ratio (calculate_indicators (hist 12 0 30 2000)) 199 = Inr (Fin (40 / 21))
   \<and> trend_strong (calculate_indicators (hist 12 0 30 2000)) 199
   \<and> macd_above_zero (calculate_indicators (hist 12 0 30 2000)) 199
   \<and> macd_trigger (calculate_indicators (hist 12 0 30 2000)) 199 198
   \<and> rsi_check (calculate_indicators (hist 12 0 30 2000)) 199
   \<and> vol_check (Fin (40 / 21))
   \<and> py_truediv (fsub (Close (calculate_indicators (hist 12 0 30 2000)) ! 199)
                     (Close (calculate_indicators (hist 12 0 30 2000)) ! 198))
         (Close (calculate_indicators (hist 12 0 30 2000)) ! 198) = Inl ZeroDivisionError
   \<and> analyze_body world ''Z'' = Inl ZeroDivisionError
   \<and> analyze_stock world ''Z'' = None
   \<and> run_scan world [''Z''] = []"
proof -
  let ?F = "calculate_indicators (hist 12 0 30 2000)"
  have l: "length (hist 12 0 30 2000) = 200" by (rule hist_len)
  have c: "Close ?F ! 199 = Fin 30" and p: "Close ?F ! 198 = Fin 0"
    by (simp_all add: Close_nth hist_len hist_last)
  have x: "RSI ?F ! 199 = Fin (800 / 11)" by (rule hist_RSI(2))
  have v: "vol_ratio ?F 199 = Inr (Fin (40 / 21))"
    using hist_vol_ratio [of 2000 12 0 30] by simp
  have g1: "trend_strong ?F 199" by (rule hist_trend(2))
  have g2: "macd_above_zero ?F 199" by (rule hist_macd_gates(3))
  have g3: "macd_trigger ?F 199 198" by (rule hist_macd_gates(4))
  have g4: "rsi_check ?F 199" by (simp add: rsi_check_def x)
  have g5: "vol_check (Fin (40 / 21))" by (simp add: vol_check_def fl_gt_def)
  have d: "py_truediv (fsub (Close ?F ! 199) (Close ?F ! 198)) (Close ?F ! 198) = Inl ZeroDivisionError"
    by (simp add: c p py_truediv_def)
  have b: "analyze_body world ''Z'' = Inl ZeroDivisionError" by (rule analyze_world_fault(1))
  have a: "analyze_stock world ''Z'' = None" by (rule analyze_world_none(1))
  have s: "run_scan world [''Z''] = []" by (simp add: run_scan_def a)
  show ?thesis by (intro conjI l c p x v g1 g2 g3 g4 g5 d b a s)
qed

section \<open>Faults stay with their instrument\<close>

lemma collect_append: "collect d (xs @ ys) = collect d xs @ collect d ys"
  by (induction xs) (simp_all split: option.splits)

text \<open>
  Claim C3. An exception raised while one symbol is fetched or evaluated is caught in
  \<open>analyze_stock\<close>, which returns \<open>None\<close> for that symbol; the scan of a universe that
  contains the symbol collects and returns exactly what it returns without it.
\<close>

theorem fault_isolated:
  assumes "analyze_body download t = Inl e"
  shows "analyze_stock download t = None
         \<and> collect download (xs @ t # ys) = collect download (xs @ ys)
         \<and> run_scan download (xs @ t # ys) = run_scan download (xs @ ys)"
proof -
  from assms have n: "analyze_stock download t = None" by (simp add: analyze_stock_def)
  then have "collect download (xs @ t # ys) = collect download (xs @ ys)"
    by (simp add: collect_append)
  with n show ?thesis by (simp add: run_scan_def)
qed

theorem fault_isolated_witness:
  "analyze_body world ''X'' = Inl DownloadError \<and> analyze_stock world ''X'' = None
   \<and> analyze_body world ''Z'' = Inl ZeroDivisionError \<and> analyze_stock world ''Z'' = None
   \<and> run_scan world [''A'', ''X'', ''B''] = run_scan world [''A'', ''B'']
   \<and> run_scan world [''A'', ''Z'', ''B''] = run_scan world [''A'', ''B'']
   \<and> run_scan world [''A'', ''B''] =
       [\<lparr>symbol = ''B'', price = Fin 14, change = Fin (2727 / 100),
          r_vol_ratio = Fin (273 / 100), rsi = Fin (8333 / 100), score = Fin 111\<rparr>,
        \<lparr>symbol = ''A'', price = Fin 14, change = Fin (2727 / 100),
          r_vol_ratio = Fin (19 / 10), rsi = Fin (8333 / 100), score = Fin 102\<rparr>]"
  using fault_isolated [OF analyze_world_fault(2), of "[''A'']" "[''B'']"]
    fault_isolated [OF analyze_world_fault(1), of "[''A'']" "[''B'']"]
  by (simp add: analyze_world_fault run_scan_def analyze_world_pass)

section \<open>Ranking\<close>

lemma flat_RSI: "RSI (calculate_indicators flat) ! 219 = NaN"
proof -
  have u: "ups flat = replicate 220 0"
    by (rule nth_equalityI) (simp_all add: ups_def flat_def)
  have d: "downs flat = replicate 220 0"
    by (rule nth_equalityI) (simp_all add: downs_def flat_def)
  have l: "219 < length flat" by (simp add: flat_def)
  show ?thesis
    by (simp add: RSI_nth [OF l] avg_gain_nth [OF l] avg_loss_nth [OF l] u d sma_def rsi_of_rs_def sum_list_replicate fsub_def)
qed

lemma analyze_world_flat: "analyze_stock world ''F'' = None"
proof -
  have "\<not> rsi_check (calculate_indicators flat) 219" by (simp add: rsi_check_def flat_RSI)
  moreover have "length flat = 220" by (simp add: flat_def)
  moreover have "flat \<noteq> []" by (simp add: flat_def)
  moreover obtain w where "vol_ratio (calculate_indicators flat) 219 = Inr (Fin w)"
    using vol_ratio_ci [of 219 flat] by (simp add: flat_def)
  ultimately show ?thesis
    by (simp add: analyze_stock_def analyze_body_def world_def evaluate_def length_Close)
qed

lemma score_Fin:
  assumes "analyze_stock d t = Some r"
  shows "\<exists>s. score r = Fin s"
proof -
  from assms have "analyze_body d t = Inr (Some r)" by (simp add: analyze_stock_Some_body)
  then obtain x w where "score r = py_round (Fin (x + w * 10)) 0"
    by (rule analyze_body_Some_D) simp
  then show ?thesis by simp
qed

lemma collect_set: "r \<in> set (collect d u) \<Longrightarrow> \<exists>t \<in> set u. analyze_stock d t = Some r"
  by (induction u) (auto split: option.splits)

lemma collect_score_Fin: "r \<in> set (collect d u) \<Longrightarrow> \<exists>s. score r = Fin s"
  using collect_set score_Fin by blast

lemma collect_map_filter:
  "collect d u = map the (filter (\<lambda>x. x \<noteq> None) (map (analyze_stock d) u))"
  by (induction u) (auto split: option.splits)

lemma mset_insert_desc: "mset (insert_desc x ys) = add_mset x (mset ys)"
  by (induction ys) simp_all

lemma mset_sort_desc: "mset (sort_desc xs) = mset xs"
  by (induction xs) (simp_all add: mset_insert_desc)

lemma set_sort_desc: "set (sort_desc xs) = set xs"
  using mset_sort_desc [of xs] by (metis set_mset_mset)

lemma fl_lt_irrefl: "\<not> fl_lt a a"
  by (cases a) simp_all

lemma filter_insert_desc:
  "filter (\<lambda>r. score r = k) (insert_desc x ys) =
     (if score x = k then x # filter (\<lambda>r. score r = k) ys else filter (\<lambda>r. score r = k) ys)"
  by (induction ys) (auto simp add: fl_lt_irrefl)

lemma filter_sort_desc:
  "filter (\<lambda>r. score r = k) (sort_desc xs) = filter (\<lambda>r. score r = k) xs"
  by (induction xs) (simp_all add: filter_insert_desc)

lemma set_insert_desc: "set (insert_desc x ys) = insert x (set ys)"
  by (induction ys) auto

lemma sorted_insert_desc:
  assumes "\<forall>r \<in> set (x # ys). \<exists>s. score r = Fin s"
    and "sorted_wrt (\<lambda>a b. \<not> fl_lt (score a) (score b)) ys"
  shows "sorted_wrt (\<lambda>a b. \<not> fl_lt (score a) (score b)) (insert_desc x ys)"
  using assms
proof (induction ys)
  case Nil
  then show ?case by simp
next
  case (Cons y ys)
  obtain sx sy where k: "score x = Fin sx" "score y = Fin sy"
    using Cons.prems(1) by auto
  show ?case
  proof (cases "fl_lt (score x) (score y)")
    case True
    have "sorted_wrt (\<lambda>a b. \<not> fl_lt (score a) (score b)) (insert_desc x ys)"
      using Cons by simp
    moreover have "\<forall>z \<in> set (insert_desc x ys). \<not> fl_lt (score y) (score z)"
      using Cons.prems(2) True k by (auto simp add: set_insert_desc)
    ultimately show ?thesis using True by simp
  next
    case False
    have "\<forall>z \<in> set ys. \<not> fl_lt (score x) (score z)"
    proof
      fix z assume z: "z \<in> set ys"
      then obtain sz where sz: "score z = Fin sz" using Cons.prems(1) by auto
      from z Cons.prems(2) have "\<not> fl_lt (score y) (score z)" by simp
      with False k sz show "\<not> fl_lt (score x) (score z)" by simp
    qed
    with False Cons.prems(2) show ?thesis by simp
  qed
qed

lemma sorted_sort_desc:
  assumes "\<forall>r \<in> set xs. \<exists>s. score r = Fin s"
  shows "sorted_wrt (\<lambda>a b. \<not> fl_lt (score a) (score b)) (sort_desc xs)"
  using assms
proof (induction xs)
  case Nil
  then show ?case by simp
next
  case (Cons x xs)
  then have "sorted_wrt (\<lambda>a b. \<not> fl_lt (score a) (score b)) (sort_desc xs)" by simp
  moreover have "\<forall>r \<in> set (x # sort_desc xs). \<exists>s. score r = Fin s"
    using Cons.prems by (simp add: set_sort_desc)
  ultimately show ?case by (simp add: sorted_insert_desc)
qed

text \<open>
  Claim C5. The scores of a scan's output are finite and descend: an entry never has a
  smaller score than a later one. The entries of any one score appear in the order in
  which they were collected, which is the order of the universe, and the output is a
  permutation of the collected records. When no symbol of the universe yields a record the
  output is the empty list.
\<close>

theorem scan_ranked:
  "(\<forall>i j. i < j \<and> j < length (run_scan d u) \<longrightarrow>
      (\<exists>a b. score (run_scan d u ! i) = Fin a \<and> score (run_scan d u ! j) = Fin b \<and> b \<le> a))
   \<and> (\<forall>k. filter (\<lambda>r. score r = k) (run_scan d u) = filter (\<lambda>r. score r = k) (collect d u))
   \<and> mset (run_scan d u) = mset (collect d u)
   \<and> collect d u = map the (filter (\<lambda>x. x \<noteq> None) (map (analyze_stock d) u))
   \<and> ((\<forall>t \<in> set u. analyze_stock d t = None) \<longrightarrow> run_scan d u = [])"
proof -
  let ?out = "run_scan d u"
  have fin: "\<forall>r \<in> set (collect d u). \<exists>s. score r = Fin s"
    using collect_score_Fin by blast
  then have srt: "sorted_wrt (\<lambda>a b. \<not> fl_lt (score a) (score b)) ?out"
    unfolding run_scan_def by (rule sorted_sort_desc)
  have fin': "\<forall>r \<in> set ?out. \<exists>s. score r = Fin s"
    using fin by (simp add: run_scan_def set_sort_desc)
  have one: "\<forall>i j. i < j \<and> j < length ?out \<longrightarrow>
      (\<exists>a b. score (?out ! i) = Fin a \<and> score (?out ! j) = Fin b \<and> b \<le> a)"
  proof (intro allI impI)
    fix i j assume ij: "i < j \<and> j < length ?out"
    then obtain a b where ab: "score (?out ! i) = Fin a" "score (?out ! j) = Fin b"
      using fin' by (meson nth_mem order.strict_trans)
    from srt ij have "\<not> fl_lt (score (?out ! i)) (score (?out ! j))"
      by (simp add: sorted_wrt_iff_nth_less)
    with ab show "\<exists>a b. score (?out ! i) = Fin a \<and> score (?out ! j) = Fin b \<and> b \<le> a"
      by simp
  qed
  have two: "\<forall>k. filter (\<lambda>r. score r = k) ?out = filter (\<lambda>r. score r = k) (collect d u)"
    by (simp add: run_scan_def filter_sort_desc)
  have three: "mset ?out = mset (collect d u)"
    by (simp add: run_scan_def mset_sort_desc)
  have four: "collect d u = map the (filter (\<lambda>x. x \<noteq> None) (map (analyze_stock d) u))"
    by (rule collect_map_filter)
  have five: "(\<forall>t \<in> set u. analyze_stock d t = None) \<longrightarrow> ?out = []"
  proof
    assume "\<forall>t \<in> set u. analyze_stock d t = None"
    then have "collect d u = []" by (induction u) simp_all
    then show "?out = []" by (simp add: run_scan_def)
  qed
  from one two three four five show ?thesis by blast
qed

theorem scan_ranked_witness:
  "analyze_stock world ''X'' = None \<and> analyze_stock world ''Z'' = None
   \<and> analyze_stock world ''F'' = None
   \<and> run_scan world [''X'', ''Z'', ''F''] = []
   \<and> run_scan world [''A'', ''X'', ''B'', ''Z'', ''F'', ''C''] =
       [\<lparr>symbol = ''B'', price = Fin 14, change = Fin (2727 / 100),
          r_vol_ratio = Fin (273 / 100), rsi = Fin (8333 / 100), score = Fin 111\<rparr>,
        \<lparr>symbol = ''A'', price = Fin 14, change = Fin (2727 / 100),
          r_vol_ratio = Fin (19 / 10), rsi = Fin (8333 / 100), score = Fin 102\<rparr>,
        \<lparr>symbol = ''C'', price = Fin 14, change = Fin (2727 / 100),
          r_vol_ratio = Fin (19 / 10), rsi = Fin (8333 / 100), score = Fin 102\<rparr>]"
proof -
  have n: "\<forall>t \<in> set [''X'', ''Z'', ''F'']. analyze_stock world t = None"
    by (simp add: analyze_world_none analyze_world_flat)
  have e: "run_scan world [''X'', ''Z'', ''F''] = []"
    using scan_ranked [of world "[''X'', ''Z'', ''F'']"] n by blast
  have r: "run_scan world [''A'', ''X'', ''B'', ''Z'', ''F'', ''C''] =
       [\<lparr>symbol = ''B'', price = Fin 14, change = Fin (2727 / 100),
          r_vol_ratio = Fin (273 / 100), rsi = Fin (8333 / 100), score = Fin 111\<rparr>,
        \<lparr>symbol = ''A'', price = Fin 14, change = Fin (2727 / 100),
          r_vol_ratio = Fin (19 / 10), rsi = Fin (8333 / 100), score = Fin 102\<rparr>,
        \<lparr>symbol = ''C'', price = Fin 14, change = Fin (2727 / 100),
          r_vol_ratio = Fin (19 / 10), rsi = Fin (8333 / 100), score = Fin 102\<rparr>]"
    by (simp add: run_scan_def analyze_world_pass analyze_world_none analyze_world_flat)
  from n e r show ?thesis by simp
qed

section \<open>The gates decide the outcome\<close>

text \<open>
  On a frame in which one of the values read at the two last positions is NaN, the
  evaluation returns \<open>None\<close> without raising. For a history of at least 200 bars whose
  previous close is not zero, a record is returned exactly when the four gates pass.
\<close>

lemma fl_lt_NaN: "\<not> fl_lt a NaN" "\<not> fl_lt NaN a"
  by (cases a; simp)+

lemma evaluate_absent_indicator:
  assumes "c = length (Close F) - 1" and "p = length (Close F) - 2"
    and "SMA_50 F ! c = NaN \<or> SMA_150 F ! c = NaN \<or> SMA_200 F ! c = NaN
         \<or> MACD_Line F ! c = NaN \<or> MACD_Hist F ! c = NaN \<or> MACD_Hist F ! p = NaN
         \<or> RSI F ! c = NaN \<or> Vol_SMA F ! c = NaN \<or> Volume F ! c = NaN \<or> Close F ! c = NaN"
  shows "evaluate t F = Inr None"
proof -
  obtain vr where vr: "vol_ratio F c = Inr vr"
    using vol_ratio_no_fault [of F c] by (cases "vol_ratio F c") auto
  have "\<not> (trend_strong F c \<and> macd_above_zero F c \<and> macd_trigger F c p
            \<and> rsi_check F c \<and> vol_check vr)"
  proof
    assume g: "trend_strong F c \<and> macd_above_zero F c \<and> macd_trigger F c p
            \<and> rsi_check F c \<and> vol_check vr"
    then have "SMA_50 F ! c \<noteq> NaN" "SMA_150 F ! c \<noteq> NaN" "SMA_200 F ! c \<noteq> NaN" "Close F ! c \<noteq> NaN"
      by (auto simp add: trend_strong_def fl_gt_def fl_lt_NaN)
    moreover from g have "MACD_Line F ! c \<noteq> NaN" by (auto simp add: macd_above_zero_def fl_gt_def fl_lt_NaN)
    moreover from g have "MACD_Hist F ! c \<noteq> NaN" "MACD_Hist F ! p \<noteq> NaN"
      by (auto simp add: macd_trigger_def fl_gt_def fl_lt_NaN)
    moreover from g have "RSI F ! c \<noteq> NaN" by (auto simp add: rsi_check_def fl_lt_NaN)
    moreover from g vr have "Vol_SMA F ! c \<noteq> NaN" "Volume F ! c \<noteq> NaN"
      by (auto simp add: vol_check_def vol_ratio_def fl_gt_def py_truediv_def fl_lt_NaN split: if_splits)
    ultimately show False using assms(3) by blast
  qed
  with vr assms(1,2) show ?thesis by (auto simp add: evaluate_def Let_def)
qed

lemma result_iff_gates:
  assumes "download t = Inr df" and "200 \<le> length df"
    and "close (df ! (length df - 2)) \<noteq> 0"
  shows "(\<exists>r. analyze_stock download t = Some r) \<longleftrightarrow>
     trend_strong (calculate_indicators df) (length df - 1)
     \<and> macd_above_zero (calculate_indicators df) (length df - 1)
     \<and> macd_trigger (calculate_indicators df) (length df - 1) (length df - 2)
     \<and> rsi_check (calculate_indicators df) (length df - 1)
     \<and> (\<exists>w. vol_ratio (calculate_indicators df) (length df - 1) = Inr w \<and> vol_check w)"
proof -
  let ?F = "calculate_indicators df"
  let ?c = "length df - 1" and ?p = "length df - 2"
  have c: "?c < length df" and p: "?p < length df" using assms(2) by simp_all
  obtain w where vr: "vol_ratio ?F ?c = Inr (Fin w)" using vol_ratio_ci [OF c] by blast
  have cl: "Close ?F ! ?c = Fin (close (df ! ?c))" and pl: "Close ?F ! ?p = Fin (close (df ! ?p))"
    using c p by (simp_all only: Close_nth)
  have ne: "df \<noteq> []" using assms(2) by auto
  have body: "analyze_body download t = evaluate t ?F"
    using assms(1,2) ne by (simp add: analyze_body_def)
  have ev: "evaluate t ?F =
     (if trend_strong ?F ?c \<and> macd_above_zero ?F ?c \<and> macd_trigger ?F ?c ?p
          \<and> rsi_check ?F ?c \<and> vol_check (Fin w)
      then Inr (Some \<lparr>symbol = t, price = py_round (Fin (close (df ! ?c))) 2,
                change = py_round (fmul (fdiv (fsub (Fin (close (df ! ?c))) (Fin (close (df ! ?p))))
                              (Fin (close (df ! ?p)))) (Fin 100)) 2,
                r_vol_ratio = py_round (Fin w) 2,
                rsi = py_round (RSI ?F ! ?c) 2,
                score = py_round (fadd (RSI ?F ! ?c) (fmul (Fin w) (Fin 10))) 0\<rparr>)
      else Inr None)"
    unfolding evaluate_def Let_def length_Close cl pl vr
    using assms(3) by (simp add: py_truediv_def)
  show ?thesis
    unfolding analyze_stock_Some_body body ev vr by auto
qed

section \<open>The momentum oscillator\<close>

lemma ema_spec_shift:
  "ema_spec k (((1 - k) * y + k * x) # xs) j = ema_spec k (y # x # xs) (Suc j)"
proof (induction j)
  case 0
  show ?case by (simp add: algebra_simps)
next
  case (Suc j)
  then show ?case by simp
qed

lemma ewm_from_nth:
  "i < length xs \<Longrightarrow> ewm_from k y xs ! i = ema_spec k (y # xs) (Suc i)"
proof (induction xs arbitrary: y i)
  case Nil
  then show ?case by simp
next
  case (Cons x xs)
  show ?case
  proof (cases i)
    case 0
    then show ?thesis by (simp add: Let_def algebra_simps)
  next
    case (Suc j)
    with Cons.prems have "j < length xs" by simp
    then have "ewm_from k ((1 - k) * y + k * x) xs ! j = ema_spec k (((1 - k) * y + k * x) # xs) (Suc j)"
      by (rule Cons.IH)
    also have "\<dots> = ema_spec k (y # x # xs) (Suc (Suc j))"
      by (rule ema_spec_shift)
    finally show ?thesis using Suc by (simp add: Let_def)
  qed
qed

lemma ewm_mean_nth:
  assumes "i < length xs"
  shows "ewm_mean sp xs ! i = ema_spec (2 / (real sp + 1)) xs i"
proof (cases xs)
  case Nil
  with assms show ?thesis by simp
next
  case (Cons x rest)
  show ?thesis
  proof (cases i)
    case 0
    with Cons show ?thesis by (simp add: ewm_mean_def)
  next
    case (Suc j)
    with assms Cons have "j < length rest" by simp
    then have "ewm_from (2 / (real sp + 1)) x rest ! j = ema_spec (2 / (real sp + 1)) (x # rest) (Suc j)"
      by (rule ewm_from_nth)
    with Cons Suc show ?thesis by (simp add: ewm_mean_def)
  qed
qed

text \<open>
  Claim C8. At every position, \<open>ema12\<close> and \<open>ema26\<close> are the exponential averages of
  the closes with smoothing factors \<open>2 / (12 + 1)\<close> and \<open>2 / (26 + 1)\<close>: the first entry is
  the first close and each later entry is \<open>close * k + previous * (1 - k)\<close>. \<open>MACD_Line\<close>
  is their difference, \<open>Signal_Line\<close> is the exponential average of \<open>MACD_Line\<close> with
  factor \<open>2 / (9 + 1)\<close> under the same recurrence, and \<open>MACD_Hist\<close> is \<open>MACD_Line\<close> minus
  \<open>Signal_Line\<close>.
\<close>

theorem macd_columns:
  assumes "i < length df"
  shows "ema12 df ! i = ema_spec (2 / (12 + 1)) (map close df) i
       \<and> ema26 df ! i = ema_spec (2 / (26 + 1)) (map close df) i
       \<and> ema12 df ! 0 = close (df ! 0) \<and> ema26 df ! 0 = close (df ! 0)
       \<and> (0 < i \<longrightarrow> ema12 df ! i = close (df ! i) * (2 / 13) + ema12 df ! (i - 1) * (1 - 2 / 13))
       \<and> (0 < i \<longrightarrow> ema26 df ! i = close (df ! i) * (2 / 27) + ema26 df ! (i - 1) * (1 - 2 / 27))
       \<and> MACD_Line (calculate_indicators df) ! i = Fin (ema12 df ! i - ema26 df ! i)
       \<and> macd_line df ! i = ema12 df ! i - ema26 df ! i
       \<and> Signal_Line (calculate_indicators df) ! i = Fin (ema_spec (2 / (9 + 1)) (macd_line df) i)
       \<and> signal_line df ! 0 = macd_line df ! 0
       \<and> (0 < i \<longrightarrow> signal_line df ! i
                     = macd_line df ! i * (2 / 10) + signal_line df ! (i - 1) * (1 - 2 / 10))
       \<and> MACD_Hist (calculate_indicators df) ! i = Fin (macd_line df ! i - signal_line df ! i)
       \<and> MACD_Hist (calculate_indicators df) ! i
           = fsub (MACD_Line (calculate_indicators df) ! i) (Signal_Line (calculate_indicators df) ! i)"
proof -
  have z: "0 < length df" using assms by auto
  have e12: "\<And>j. j < length df \<Longrightarrow> ema12 df ! j = ema_spec (2 / 13) (map close df) j"
    using ewm_mean_nth [of _ "map close df" 12] by (simp add: ema12_def)
  have e26: "\<And>j. j < length df \<Longrightarrow> ema26 df ! j = ema_spec (2 / 27) (map close df) j"
    using ewm_mean_nth [of _ "map close df" 26] by (simp add: ema26_def)
  have sg: "\<And>j. j < length df \<Longrightarrow> signal_line df ! j = ema_spec (2 / 10) (macd_line df) j"
    using ewm_mean_nth [of _ "macd_line df" 9] by (simp add: signal_line_def length_macd_line)
  have rec: "\<And>k xs. 0 < i \<Longrightarrow> ema_spec k xs i = xs ! i * k + ema_spec k xs (i - 1) * (1 - k)"
    by (cases i) simp_all
  have ml: "macd_line df ! i = ema12 df ! i - ema26 df ! i"
    using assms by (simp add: macd_line_def ema12_def ema26_def length_ewm_mean)
  have mh: "macd_hist df ! i = macd_line df ! i - signal_line df ! i"
    using assms by (simp add: macd_hist_def length_macd_line length_signal_line)
  have a1: "ema12 df ! i = ema_spec (2 / (12 + 1)) (map close df) i" using e12 [OF assms] by simp
  have a2: "ema26 df ! i = ema_spec (2 / (26 + 1)) (map close df) i" using e26 [OF assms] by simp
  have a3: "ema12 df ! 0 = close (df ! 0)" using e12 [OF z] z by simp
  have a4: "ema26 df ! 0 = close (df ! 0)" using e26 [OF z] z by simp
  have a5: "0 < i \<longrightarrow> ema12 df ! i = close (df ! i) * (2 / 13) + ema12 df ! (i - 1) * (1 - 2 / 13)"
    using e12 [OF assms] e12 [of "i - 1"] rec [of "2 / 13" "map close df"] assms by auto
  have a6: "0 < i \<longrightarrow> ema26 df ! i = close (df ! i) * (2 / 27) + ema26 df ! (i - 1) * (1 - 2 / 27)"
    using e26 [OF assms] e26 [of "i - 1"] rec [of "2 / 27" "map close df"] assms by auto
  have a7: "MACD_Line (calculate_indicators df) ! i = Fin (ema12 df ! i - ema26 df ! i)"
    using assms ml by (simp add: MACD_Line_nth)
  have a8: "Signal_Line (calculate_indicators df) ! i = Fin (ema_spec (2 / (9 + 1)) (macd_line df) i)"
    using assms sg [OF assms] by (simp add: Signal_Line_nth)
  have a9: "signal_line df ! 0 = macd_line df ! 0" using sg [OF z] by simp
  have a10: "0 < i \<longrightarrow> signal_line df ! i
                     = macd_line df ! i * (2 / 10) + signal_line df ! (i - 1) * (1 - 2 / 10)"
    using sg [OF assms] sg [of "i - 1"] rec [of "2 / 10" "macd_line df"] assms by auto
  have a11: "MACD_Hist (calculate_indicators df) ! i = Fin (macd_line df ! i - signal_line df ! i)"
    using assms mh by (simp add: MACD_Hist_nth)
  have a12: "MACD_Hist (calculate_indicators df) ! i
           = fsub (MACD_Line (calculate_indicators df) ! i) (Signal_Line (calculate_indicators df) ! i)"
    using assms mh by (simp add: MACD_Hist_nth MACD_Line_nth Signal_Line_nth fsub_def)
  from a1 a2 a3 a4 a5 a6 a7 ml a8 a9 a10 a11 a12 show ?thesis by blast
qed

theorem macd_columns_witness:
  "198 < length (hist 12 11 14 2000)
   \<and> ema12 (hist 12 11 14 2000) ! 197 = 134 / 13
   \<and> ema12 (hist 12 11 14 2000) ! 198 = 1760 / 169
   \<and> ema12 (hist 12 11 14 2000) ! 198
       = close (hist 12 11 14 2000 ! 198) * (2 / 13) + ema12 (hist 12 11 14 2000) ! (198 - 1) * (1 - 2 / 13)
   \<and> MACD_Line (calculate_indicators (hist 12 11 14 2000)) ! 198
       = Fin (ema12 (hist 12 11 14 2000) ! 198 - ema26 (hist 12 11 14 2000) ! 198)
   \<and> signal_line (hist 12 11 14 2000) ! 198
       = macd_line (hist 12 11 14 2000) ! 198 * (2 / 10)
         + signal_line (hist 12 11 14 2000) ! (198 - 1) * (1 - 2 / 10)
   \<and> MACD_Hist (calculate_indicators (hist 12 11 14 2000)) ! 198
       = fsub (MACD_Line (calculate_indicators (hist 12 11 14 2000)) ! 198)
           (Signal_Line (calculate_indicators (hist 12 11 14 2000)) ! 198)"
proof -
  have l: "198 < length (hist 12 11 14 2000)" by (simp add: hist_len)
  have e: "ema12 (hist 12 11 14 2000) = replicate 197 10 @ ewm_from (2 / 13) 10 [12, 11, 14]"
    by (simp add: ema12_def hist_close ewm_mean_const)
  have v: "ema12 (hist 12 11 14 2000) ! 197 = 134 / 13" "ema12 (hist 12 11 14 2000) ! 198 = 1760 / 169"
    by (simp_all add: e nth_append Let_def)
  have c1: "ema12 (hist 12 11 14 2000) ! 198
       = close (hist 12 11 14 2000 ! 198) * (2 / 13) + ema12 (hist 12 11 14 2000) ! (198 - 1) * (1 - 2 / 13)"
    using macd_columns [OF l] by auto
  have c2: "MACD_Line (calculate_indicators (hist 12 11 14 2000)) ! 198
       = Fin (ema12 (hist 12 11 14 2000) ! 198 - ema26 (hist 12 11 14 2000) ! 198)"
    using macd_columns [OF l] by auto
  have c3: "signal_line (hist 12 11 14 2000) ! 198
       = macd_line (hist 12 11 14 2000) ! 198 * (2 / 10)
         + signal_line (hist 12 11 14 2000) ! (198 - 1) * (1 - 2 / 10)"
    using macd_columns [OF l] by auto
  have c4: "MACD_Hist (calculate_indicators (hist 12 11 14 2000)) ! 198
       = fsub (MACD_Line (calculate_indicators (hist 12 11 14 2000)) ! 198)
           (Signal_Line (calculate_indicators (hist 12 11 14 2000)) ! 198)"
    using macd_columns [OF l] by auto
  show ?thesis by (intro conjI l v c1 c2 c3 c4)
qed

section \<open>The relative-strength oscillator\<close>

lemma ups_nonneg: "\<forall>x \<in> set (ups df). 0 \<le> x"
  by (auto simp add: ups_def)

lemma downs_nonneg: "\<forall>x \<in> set (downs df). 0 \<le> x"
  by (auto simp add: downs_def)

lemma rsi_of_quotient:
  assumes "0 \<le> g" and "0 \<le> l"
  shows "rsi_of_rs (fdiv (Fin g) (Fin l)) =
     (if l = 0 then (if g = 0 then NaN else Fin 100) else Fin (100 - 100 / (1 + g / l)))"
proof -
  have "l \<noteq> 0 \<Longrightarrow> 1 + g / l \<noteq> 0"
  proof -
    assume "l \<noteq> 0"
    with assms have "0 \<le> g / l" by simp
    then show "1 + g / l \<noteq> 0" by linarith
  qed
  then show ?thesis using assms by (auto simp add: rsi_of_rs_def fsub_def)
qed

lemma rsi_quotient_range:
  assumes "0 \<le> g" and "0 < l"
  shows "0 \<le> 100 - 100 / (1 + g / l)" and "100 - 100 / (1 + g / l) \<le> (100::real)"
proof -
  have "0 \<le> g / l" using assms by simp
  then have p: "1 \<le> 1 + g / l" by simp
  then have "0 < 1 + g / l" and "(100::real) \<le> 100 * (1 + g / l)" by simp_all
  then have "100 / (1 + g / l) \<le> 100" by (simp only: pos_divide_le_eq)
  then show "0 \<le> 100 - 100 / (1 + g / l)" by simp
  have "0 \<le> 100 / (1 + g / l)" using p by simp
  then show "100 - 100 / (1 + g / l) \<le> (100::real)" by simp
qed

lemma RSI_cases:
  assumes "i < length df"
  shows "RSI (calculate_indicators df) ! i =
     (if i < 13 then NaN
      else if sma 14 (downs df) i = 0 then (if sma 14 (ups df) i = 0 then NaN else Fin 100)
      else Fin (100 - 100 / (1 + sma 14 (ups df) i / sma 14 (downs df) i)))"
proof (cases "i < 13")
  case True
  with assms show ?thesis by (simp add: RSI_nth avg_gain_nth avg_loss_nth rsi_of_rs_def fsub_def)
next
  case False
  have "0 \<le> sma 14 (ups df) i" "0 \<le> sma 14 (downs df) i"
    by (simp_all add: sma_nonneg ups_nonneg downs_nonneg)
  then have "rsi_of_rs (fdiv (Fin (sma 14 (ups df) i)) (Fin (sma 14 (downs df) i))) =
     (if sma 14 (downs df) i = 0 then (if sma 14 (ups df) i = 0 then NaN else Fin 100)
      else Fin (100 - 100 / (1 + sma 14 (ups df) i / sma 14 (downs df) i)))"
    by (rule rsi_of_quotient)
  with False assms show ?thesis by (simp add: RSI_nth avg_gain_nth avg_loss_nth)
qed

lemma replicate_RSI:
  assumes "14 \<le> n"
  shows "RSI (calculate_indicators (replicate n b)) ! (n - 1) = NaN"
proof -
  have u: "ups (replicate n b) = replicate n 0"
    by (rule nth_equalityI) (simp_all add: ups_def)
  have d: "downs (replicate n b) = replicate n 0"
    by (rule nth_equalityI) (simp_all add: downs_def)
  have l: "n - 1 < length (replicate n b)" using assms by simp
  have "sma 14 (replicate n (0::real)) (n - 1) = 0"
    by (simp add: sma_def sum_list_replicate)
  with assms RSI_cases [OF l] show ?thesis by (simp add: u d)
qed

text \<open>
  Claim C2, as the code has it. At every position the RSI is either NaN or a number
  in \<open>[0, 100]\<close>. From position 13 on the trailing averages of gains and losses are
  numbers that are not negative. When the average loss is 0 and the average gain is not,
  the RSI is 100; when both are 0 it is NaN, the quotient being \<open>0 / 0\<close>. So a history
  of at least 14 bars that never moves has a NaN RSI at its last position, and a NaN RSI
  fails the strength check.
\<close>

theorem rsi_range:
  assumes "i < length df"
  shows "(RSI (calculate_indicators df) ! i = NaN
            \<or> (\<exists>r. RSI (calculate_indicators df) ! i = Fin r \<and> 0 \<le> r \<and> r \<le> 100))
       \<and> (13 \<le> i \<longrightarrow> avg_gain df ! i = Fin (sma 14 (ups df) i) \<and> 0 \<le> sma 14 (ups df) i
                      \<and> avg_loss df ! i = Fin (sma 14 (downs df) i) \<and> 0 \<le> sma 14 (downs df) i)
       \<and> (avg_loss df ! i = Fin 0 \<and> avg_gain df ! i \<noteq> Fin 0
             \<longrightarrow> RSI (calculate_indicators df) ! i = Fin 100)
       \<and> (avg_loss df ! i = Fin 0 \<and> avg_gain df ! i = Fin 0
             \<longrightarrow> RSI (calculate_indicators df) ! i = NaN)
       \<and> (\<forall>n b. 14 \<le> n \<longrightarrow> RSI (calculate_indicators (replicate n b)) ! (n - 1) = NaN)
       \<and> (\<forall>F j. RSI F ! j = NaN \<longrightarrow> \<not> rsi_check F j)"
proof -
  let ?g = "sma 14 (ups df) i" and ?l = "sma 14 (downs df) i"
  have nn: "0 \<le> ?g" "0 \<le> ?l" by (simp_all add: sma_nonneg ups_nonneg downs_nonneg)
  have c: "RSI (calculate_indicators df) ! i =
     (if i < 13 then NaN
      else if ?l = 0 then (if ?g = 0 then NaN else Fin 100)
      else Fin (100 - 100 / (1 + ?g / ?l)))"
    using assms by (rule RSI_cases)
  have one: "RSI (calculate_indicators df) ! i = NaN
            \<or> (\<exists>r. RSI (calculate_indicators df) ! i = Fin r \<and> 0 \<le> r \<and> r \<le> 100)"
  proof (cases "i < 13 \<or> ?l = 0")
    case True
    with c show ?thesis by auto
  next
    case False
    then have "0 < ?l" using nn by simp
    with nn(1) have "0 \<le> 100 - 100 / (1 + ?g / ?l)" "100 - 100 / (1 + ?g / ?l) \<le> 100"
      by (rule rsi_quotient_range)+
    with False c show ?thesis by simp
  qed
  have two: "13 \<le> i \<longrightarrow> avg_gain df ! i = Fin ?g \<and> 0 \<le> ?g \<and> avg_loss df ! i = Fin ?l \<and> 0 \<le> ?l"
    using assms nn by (simp add: avg_gain_nth avg_loss_nth)
  have three: "avg_loss df ! i = Fin 0 \<and> avg_gain df ! i \<noteq> Fin 0
             \<longrightarrow> RSI (calculate_indicators df) ! i = Fin 100"
    using assms c by (auto simp add: avg_gain_nth avg_loss_nth split: if_splits)
  have four: "avg_loss df ! i = Fin 0 \<and> avg_gain df ! i = Fin 0
             \<longrightarrow> RSI (calculate_indicators df) ! i = NaN"
    using assms c by (auto simp add: avg_gain_nth avg_loss_nth split: if_splits)
  have five: "\<forall>n b. 14 \<le> n \<longrightarrow> RSI (calculate_indicators (replicate n b)) ! (n - 1) = NaN"
    using replicate_RSI by blast
  have six: "\<forall>F j. RSI F ! j = NaN \<longrightarrow> \<not> rsi_check F j"
    by (simp add: rsi_check_def)
  from one two three four five six show ?thesis by blast
qed

text \<open>
  The flat history of 220 bars: the average loss at the last position is 0, and the RSI
  there is NaN, not 100.
\<close>

theorem flat_history_rsi_undefined:
  "length flat = 220 \<and> avg_gain flat ! 219 = Fin 0 \<and> avg_loss flat ! 219 = Fin 0
   \<and> RSI (calculate_indicators flat) ! 219 = NaN
   \<and> RSI (calculate_indicators flat) ! 219 \<noteq> Fin 100"
proof -
  have u: "ups flat = replicate 220 0"
    by (rule nth_equalityI) (simp_all add: ups_def flat_def)
  have d: "downs flat = replicate 220 0"
    by (rule nth_equalityI) (simp_all add: downs_def flat_def)
  have l: "219 < length flat" by (simp add: flat_def)
  show ?thesis
    by (simp add: flat_RSI avg_gain_nth [OF l] avg_loss_nth [OF l] u d sma_def sum_list_replicate)
      (simp add: flat_def)
qed

theorem rsi_range_witness:
  "199 < length (hist 12 13 14 2000)
   \<and> avg_gain (hist 12 13 14 2000) ! 199 = Fin (2 / 7)
   \<and> avg_loss (hist 12 13 14 2000) ! 199 = Fin 0
   \<and> RSI (calculate_indicators (hist 12 13 14 2000)) ! 199 = Fin 100
   \<and> RSI (calculate_indicators (hist 12 11 14 2000)) ! 199 = Fin (250 / 3)
   \<and> RSI (calculate_indicators (replicate 220 \<lparr>close = 10, volume = 1000\<rparr>)) ! (220 - 1) = NaN"
proof -
  have l: "199 < length (hist 12 13 14 2000)" by (simp add: hist_len)
  have g: "avg_gain (hist 12 13 14 2000) ! 199 = Fin (2 / 7)"
    by (simp add: avg_gain_nth [OF l] sma_def hist_ups)
  have d: "avg_loss (hist 12 13 14 2000) ! 199 = Fin 0"
    by (simp add: avg_loss_nth [OF l] sma_def hist_downs)
  have r: "RSI (calculate_indicators (hist 12 13 14 2000)) ! 199 = Fin 100"
    using rsi_range [OF l] g d by simp
  have f: "RSI (calculate_indicators (replicate 220 \<lparr>close = 10, volume = 1000\<rparr>)) ! (220 - 1) = NaN"
  proof -
    have a: "\<forall>n b. 14 \<le> n \<longrightarrow> RSI (calculate_indicators (replicate n b)) ! (n - 1) = NaN"
      using rsi_range [OF l] by blast
    show ?thesis using a [rule_format, of 220 "\<lparr>close = 10, volume = 1000\<rparr>"] by simp
  qed
  show ?thesis by (intro conjI l g d r f hist_RSI(1))
qed

end
